theory Spec2Isabelle
  imports Main "HOL-Library.Sublist"
begin

section \<open>JSON-RPC over STOMP: message classification, correlation and dispatch\<close>

text \<open>
  A shallow embedding of \<^verbatim>\<open>jsonrpcstomp.py\<close> (Python 2). The module defines the class
  \<^verbatim>\<open>JSONRPCObject\<close>, which classifies one transport message, and the class
  \<^verbatim>\<open>JSONRPCStomp\<close>, a session on top of the \<^verbatim>\<open>stompy\<close> client.

  What lies outside the module is kept abstract:
  \<^item> \<^verbatim>\<open>json.loads\<close> and \<^verbatim>\<open>json.dumps\<close> are parameters (fields of the record \<open>world\<close>);
    \<open>json_loads\<close> answers \<open>None\<close> where \<^verbatim>\<open>json.loads\<close> raises \<^verbatim>\<open>ValueError\<close>;
  \<^item> a handler or callback is a value of an arbitrary type \<open>'cb\<close>; calling it is the
    parameter \<open>invoke\<close>, which answers the returned value or the raised exception
    (an instance of \<^verbatim>\<open>Exception\<close>). A handler does not itself change the session;
  \<^item> the operations inherited from \<^verbatim>\<open>stompy.simple.Client\<close> (\<^verbatim>\<open>connect\<close>,
    \<^verbatim>\<open>disconnect\<close>, \<^verbatim>\<open>subscribe\<close>, \<^verbatim>\<open>put\<close>) are recorded, in order, in the
    field \<open>trace\<close> of the session, together with every call of a handler; what
    \<^verbatim>\<open>get\<close> delivers is an input of \<open>run\<close>.
\<close>

subsection \<open>Python values\<close>

text \<open>
  The values \<^verbatim>\<open>json.loads\<close> produces. \<open>JNull\<close> is Python's \<^verbatim>\<open>None\<close>; a
  \<^verbatim>\<open>dict\<close> is an association list read with \<open>map_of\<close> (the order of the keys
  has no meaning). Floating-point numbers are left out.
\<close>

datatype json =
    JNull
  | JBool bool
  | JInt int
  | JStr string
  | JList "json list"
  | JObj "(string \<times> json) list"

datatype py_error =
    TypeError
  | ValueError
  | KeyError
  | AttributeError
  | NotImplementedError
  | NotConnectedError
  | OtherException string

text \<open>\<^verbatim>\<open>d.get(k)\<close>: \<^verbatim>\<open>None\<close> when the key is missing, so a missing key and a key
  bound to \<^verbatim>\<open>null\<close> read the same.\<close>

definition dict_get :: "(string \<times> json) list \<Rightarrow> string \<Rightarrow> json" where
  "dict_get d k = (case map_of d k of None \<Rightarrow> JNull | Some v \<Rightarrow> v)"

text \<open>\<^verbatim>\<open>s.startswith(p)\<close>.\<close>

definition startswith :: "string \<Rightarrow> string \<Rightarrow> bool" where
  "startswith s p = prefix p s"

text \<open>\<^verbatim>\<open>s.find(sep)\<close>: the index of the first occurrence of \<open>sep\<close> in \<open>s\<close>.\<close>

fun str_find :: "string \<Rightarrow> string \<Rightarrow> nat option" where
  "str_find sep [] = (if sep = [] then Some 0 else None)"
| "str_find sep (c # cs) =
     (if prefix sep (c # cs) then Some 0 else map_option Suc (str_find sep cs))"

text \<open>\<^verbatim>\<open>s.partition(sep)\<close> for a non-empty \<open>sep\<close> (every separator of the module
  is a non-empty constant): the text before the first occurrence, the separator, the
  text after it; \<^verbatim>\<open>(s, '', '')\<close> when \<open>sep\<close> does not occur.\<close>

definition partition_str :: "string \<Rightarrow> string \<Rightarrow> string \<times> string \<times> string" where
  "partition_str s sep =
     (case str_find sep s of
        None \<Rightarrow> (s, [], [])
      | Some i \<Rightarrow> (take i s, sep, drop (i + length sep) s))"

text \<open>The index \<^verbatim>\<open>[-1]\<close> of the triple.\<close>

definition partition_last :: "string \<Rightarrow> string \<Rightarrow> string" where
  "partition_last s sep = snd (snd (partition_str s sep))"

text \<open>\<^verbatim>\<open>len(x)\<close>: defined on strings, lists and dicts; a \<^verbatim>\<open>TypeError\<close> on
  \<^verbatim>\<open>None\<close>, booleans and integers.\<close>

fun py_len :: "json \<Rightarrow> py_error + nat" where
  "py_len (JStr s) = Inr (length s)"
| "py_len (JList xs) = Inr (length xs)"
| "py_len (JObj d) = Inr (length (remdups (map fst d)))"
| "py_len _ = Inl TypeError"

text \<open>The argument of \<^verbatim>\<open>f(**x)\<close> must be a mapping.\<close>

fun kwargs :: "json \<Rightarrow> py_error + (string \<times> json) list" where
  "kwargs (JObj d) = Inr d"
| "kwargs _ = Inl TypeError"

subsection \<open>Constants of the module\<close>

abbreviation PREFIX_TOPIC_MESSAGE :: string where "PREFIX_TOPIC_MESSAGE \<equiv> ''/topic/msg.local.''"
abbreviation PREFIX_TOPIC_JOB :: string where "PREFIX_TOPIC_JOB \<equiv> ''/topic/req.local.''"
abbreviation PREFIX_REPLY :: string where "PREFIX_REPLY \<equiv> ''/topic/reply-''"

abbreviation JSONRPC_KEY_PARAMS :: string where "JSONRPC_KEY_PARAMS \<equiv> ''params''"
abbreviation JSONRPC_KEY_METHOD :: string where "JSONRPC_KEY_METHOD \<equiv> ''method''"
abbreviation JSONRPC_KEY_ID :: string where "JSONRPC_KEY_ID \<equiv> ''id''"
abbreviation JSONRPC_KEY_RESULT :: string where "JSONRPC_KEY_RESULT \<equiv> ''result''"
abbreviation JSONRPC_KEY_JSONRP :: string where "JSONRPC_KEY_JSONRP \<equiv> ''jsonrpc''"
abbreviation JSONRPC_KEY_ERROR :: string where "JSONRPC_KEY_ERROR \<equiv> ''error''"
abbreviation JSONRPC_KEY_VERSION :: string where "JSONRPC_KEY_VERSION \<equiv> ''2.0''"
abbreviation JSONRPC_KEY_REPLY_TO :: string where "JSONRPC_KEY_REPLY_TO \<equiv> ''reply-to''"
abbreviation JSONRPC_KEY_ERROR_CODE :: string where "JSONRPC_KEY_ERROR_CODE \<equiv> ''code''"
abbreviation JSONRPC_KEY_ERROR_MESSAGE :: string where "JSONRPC_KEY_ERROR_MESSAGE \<equiv> ''message''"

abbreviation JSONRPC_VALUE_ERROR_INT_ERR :: int where "JSONRPC_VALUE_ERROR_INT_ERR \<equiv> - 32603"
abbreviation JSONRPC_VALUE_MSG_INT_ERR :: string where "JSONRPC_VALUE_MSG_INT_ERR \<equiv> ''Internal error''"

abbreviation ACK_CLIENT :: string where "ACK_CLIENT \<equiv> ''client''"
abbreviation ACK_AUTO :: string where "ACK_AUTO \<equiv> ''auto''"

abbreviation MSG_TYPE_JOB :: string where "MSG_TYPE_JOB \<equiv> ''job''"
abbreviation MSG_TYPE_NOT :: string where "MSG_TYPE_NOT \<equiv> ''notification''"
abbreviation MSG_TYPE_CALLBACK_SUCCESS :: string where "MSG_TYPE_CALLBACK_SUCCESS \<equiv> ''callback_sucess''"
abbreviation MSG_TYPE_CALLBACK_ERROR :: string where "MSG_TYPE_CALLBACK_ERROR \<equiv> ''callback_error''"

abbreviation MSG_QUIT :: string where "MSG_QUIT \<equiv> ''quit''"
abbreviation DEFAULT_RETRY_TIME :: nat where "DEFAULT_RETRY_TIME \<equiv> 1"

subsection \<open>Transport messages and their classification\<close>

text \<open>A message of the transport: its headers (a dict of strings) and its body.\<close>

record message =
  headers :: "string \<rightharpoonup> string"
  body :: string

text \<open>
  The attributes of a \<^verbatim>\<open>JSONRPCObject\<close>. \<open>rpc_id\<close> is the attribute \<^verbatim>\<open>_id\<close> and
  \<open>rpc_method\<close> the attribute \<^verbatim>\<open>method\<close>.
  \<open>message_type\<close> and \<open>notification\<close> are \<open>None\<close> while the attribute has not
  been assigned; \<open>reply_to\<close> is \<open>None\<close> while it has not been assigned and also when
  the header is missing (it is read in the job branch only, after its assignment).
\<close>

record rpc_object =
  params :: json
  rpc_method :: json
  rpc_id :: json
  result :: json
  error :: json
  message_type :: "string option"
  notification :: "string option"
  reply_to :: "string option"

text \<open>
  \<^verbatim>\<open>JSONRPCObject.__init__\<close>. The body is decoded first; \<^verbatim>\<open>.get\<close> on a decoded
  value that is not a dict, and \<^verbatim>\<open>.partition\<close> or \<^verbatim>\<open>.startswith\<close> on a missing
  destination, raise \<^verbatim>\<open>AttributeError\<close>. The two tests on the destination are
  two separate \<^verbatim>\<open>if\<close> statements.
\<close>

definition JSONRPCObject :: "(string \<Rightarrow> json option) \<Rightarrow> message \<Rightarrow> py_error + rpc_object" where
  "JSONRPCObject loads m =
     (let destination = headers m ''destination'' in
      case loads (body m) of
        None \<Rightarrow> Inl ValueError
      | Some (JObj json_msg) \<Rightarrow>
          (let self = \<lparr> params = dict_get json_msg JSONRPC_KEY_PARAMS,
                        rpc_method = dict_get json_msg JSONRPC_KEY_METHOD,
                        rpc_id = dict_get json_msg JSONRPC_KEY_ID,
                        result = dict_get json_msg JSONRPC_KEY_RESULT,
                        error = dict_get json_msg JSONRPC_KEY_ERROR,
                        message_type = None,
                        notification = None,
                        reply_to = None \<rparr>
           in case destination of
                None \<Rightarrow> Inl AttributeError
              | Some dest \<Rightarrow>
                  if rpc_id self = JNull then
                    Inr (self\<lparr> message_type := Some MSG_TYPE_NOT,
                               notification := Some (partition_last dest PREFIX_TOPIC_MESSAGE) \<rparr>)
                  else
                    (let self1 =
                           (if startswith dest PREFIX_TOPIC_JOB then
                              self\<lparr> message_type := Some MSG_TYPE_JOB,
                                    rpc_method := JStr (partition_last dest PREFIX_TOPIC_JOB),
                                    reply_to := headers m JSONRPC_KEY_REPLY_TO \<rparr>
                            else self);
                         self2 =
                           (if startswith dest PREFIX_REPLY then
                              (if result self1 \<noteq> JNull then
                                 self1\<lparr> message_type := Some MSG_TYPE_CALLBACK_SUCCESS \<rparr>
                               else
                                 self1\<lparr> message_type := Some MSG_TYPE_CALLBACK_ERROR \<rparr>)
                            else self1)
                     in Inr self2))
      | Some _ \<Rightarrow> Inl AttributeError)"

text \<open>The properties \<^verbatim>\<open>is_notification\<close>, \<^verbatim>\<open>is_job\<close> and \<^verbatim>\<open>is_callback\<close>: reading
  \<^verbatim>\<open>message_type\<close> before it is assigned raises \<^verbatim>\<open>AttributeError\<close>.\<close>

definition is_notification :: "rpc_object \<Rightarrow> py_error + bool" where
  "is_notification r =
     (case message_type r of None \<Rightarrow> Inl AttributeError | Some t \<Rightarrow> Inr (t = MSG_TYPE_NOT))"

definition is_job :: "rpc_object \<Rightarrow> py_error + bool" where
  "is_job r =
     (case message_type r of None \<Rightarrow> Inl AttributeError | Some t \<Rightarrow> Inr (t = MSG_TYPE_JOB))"

definition is_callback :: "rpc_object \<Rightarrow> py_error + bool" where
  "is_callback r =
     (case message_type r of
        None \<Rightarrow> Inl AttributeError
      | Some t \<Rightarrow> Inr (t = MSG_TYPE_CALLBACK_SUCCESS \<or> t = MSG_TYPE_CALLBACK_ERROR))"

subsection \<open>The session\<close>

text \<open>The arguments of one call of a handler: \<^verbatim>\<open>f(**d)\<close> or \<^verbatim>\<open>f(x)\<close>.\<close>

datatype call_args = KwArgs "(string \<times> json) list" | PosArg json

text \<open>
  What the session does to the outside, in order: the attempts of the inherited
  \<^verbatim>\<open>connect\<close> (with their success), the inherited \<^verbatim>\<open>disconnect\<close>,
  \<^verbatim>\<open>time.sleep\<close>, \<^verbatim>\<open>subscribe(destination, ack)\<close>,
  \<^verbatim>\<open>put(item, destination, conf)\<close> and the calls of handlers.
\<close>

datatype 'cb event =
    TransportConnect bool
  | TransportDisconnect
  | Sleep nat
  | Subscribe string string
  | Put string "string option" "(string \<times> string) list"
  | Invoke 'cb call_args

record 'cb world =
  invoke :: "'cb \<Rightarrow> call_args \<Rightarrow> py_error + json"
  json_loads :: "string \<Rightarrow> json option"
  json_dumps :: "json \<Rightarrow> string"

text \<open>
  The attributes of a \<^verbatim>\<open>JSONRPCStomp\<close>. \<open>reply_to_topic\<close> and \<open>listen\<close> are
  \<open>None\<close> until \<^verbatim>\<open>connect\<close>, respectively \<^verbatim>\<open>run\<close>, assigns them.
\<close>

record 'cb session =
  methods :: "string \<rightharpoonup> 'cb"
  notifiers :: "string \<rightharpoonup> 'cb"
  callbacks_success :: "int \<rightharpoonup> 'cb"
  callbacks_error :: "int \<rightharpoonup> 'cb"
  is_connected :: bool
  last_id :: int
  reply_to_topic :: "string option"
  listen :: "bool option"
  trace :: "'cb event list"

text \<open>\<^verbatim>\<open>JSONRPCStomp.__init__\<close>.\<close>

definition JSONRPCStomp_init :: "'cb session" where
  "JSONRPCStomp_init =
     \<lparr> methods = Map.empty, notifiers = Map.empty,
       callbacks_success = Map.empty, callbacks_error = Map.empty,
       is_connected = False, last_id = 0,
       reply_to_topic = None, listen = None, trace = [] \<rparr>"

definition subscribe :: "'cb session \<Rightarrow> string \<Rightarrow> string \<Rightarrow> 'cb session" where
  "subscribe s destination ack = s\<lparr> trace := trace s @ [Subscribe destination ack] \<rparr>"

definition put :: "'cb session \<Rightarrow> string \<Rightarrow> string option \<Rightarrow> (string \<times> string) list \<Rightarrow> 'cb session" where
  "put s item destination conf = s\<lparr> trace := trace s @ [Put item destination conf] \<rparr>"

text \<open>Calling a handler: the call is recorded, its outcome is the world's.\<close>

definition call_handler ::
  "'cb world \<Rightarrow> 'cb session \<Rightarrow> 'cb \<Rightarrow> call_args \<Rightarrow> (py_error + json) \<times> 'cb session" where
  "call_handler W s h a = (invoke W h a, s\<lparr> trace := trace s @ [Invoke h a] \<rparr>)"

text \<open>
  The loop of \<^verbatim>\<open>connect\<close>. The list holds the outcomes of the successive attempts
  (\<open>False\<close> is a \<^verbatim>\<open>ConnectionError\<close>); the loop is still retrying, \<open>None\<close>, when
  the list holds no success.
\<close>

fun connect_loop :: "'cb session \<Rightarrow> bool list \<Rightarrow> 'cb session option" where
  "connect_loop s [] = None"
| "connect_loop s (ok # attempts) =
     (if ok then Some (s\<lparr> trace := trace s @ [TransportConnect True] \<rparr>)
      else connect_loop
             (s\<lparr> trace := trace s @ [TransportConnect False, Sleep DEFAULT_RETRY_TIME] \<rparr>)
             attempts)"

text \<open>\<^verbatim>\<open>connect\<close>; \<open>random_string\<close> is the string drawn by \<^verbatim>\<open>random.choice\<close>.\<close>

definition connect :: "'cb session \<Rightarrow> bool list \<Rightarrow> string \<Rightarrow> 'cb session option" where
  "connect s attempts random_string =
     (case connect_loop s attempts of
        None \<Rightarrow> None
      | Some s1 \<Rightarrow>
          (let s2 = s1\<lparr> reply_to_topic := Some (PREFIX_REPLY @ random_string) \<rparr>;
               s3 = subscribe s2 (PREFIX_REPLY @ random_string) ACK_CLIENT
           in Some (s3\<lparr> is_connected := True \<rparr>)))"

definition disconnect :: "'cb session \<Rightarrow> 'cb session" where
  "disconnect s = s\<lparr> trace := trace s @ [TransportDisconnect], is_connected := False \<rparr>"

text \<open>\<^verbatim>\<open>accept_notifications\<close> and \<^verbatim>\<open>accept_calls\<close>; the method is any Python
  value, tested by \<^verbatim>\<open>isinstance(method, str)\<close>.\<close>

definition accept_notifications ::
  "'cb session \<Rightarrow> json \<Rightarrow> 'cb \<Rightarrow> (py_error + unit) \<times> 'cb session" where
  "accept_notifications s meth callback =
     (if is_connected s then
        (case meth of
           JStr name \<Rightarrow>
             (let s1 = s\<lparr> notifiers := (notifiers s)(name \<mapsto> callback) \<rparr>;
                  method_name = PREFIX_TOPIC_MESSAGE @ name
              in (Inr (), subscribe s1 method_name ACK_AUTO))
         | _ \<Rightarrow> (Inl TypeError, s))
      else (Inl NotConnectedError, s))"

definition accept_calls ::
  "'cb session \<Rightarrow> json \<Rightarrow> 'cb \<Rightarrow> (py_error + unit) \<times> 'cb session" where
  "accept_calls s meth callback =
     (if is_connected s then
        (case meth of
           JStr name \<Rightarrow>
             (let s1 = s\<lparr> methods := (methods s)(name \<mapsto> callback) \<rparr>;
                  method_name = PREFIX_TOPIC_JOB @ name
              in (Inr (), subscribe s1 method_name ACK_AUTO))
         | _ \<Rightarrow> (Inl TypeError, s))
      else (Inl NotConnectedError, s))"

text \<open>\<^verbatim>\<open>notify\<close> and \<^verbatim>\<open>call\<close>, for a method name that is a string and params that
  \<^verbatim>\<open>json.dumps\<close> accepts. \<^verbatim>\<open>call\<close> reads \<^verbatim>\<open>self.reply_to_topic\<close> last, after
  the counter and the two tables have been updated.\<close>

definition notify :: "'cb world \<Rightarrow> 'cb session \<Rightarrow> string \<Rightarrow> json \<Rightarrow> (py_error + unit) \<times> 'cb session" where
  "notify W s meth p =
     (let message = JObj [(JSONRPC_KEY_JSONRP, JStr JSONRPC_KEY_VERSION),
                          (JSONRPC_KEY_METHOD, JStr meth),
                          (JSONRPC_KEY_PARAMS, p)];
          json_message = json_dumps W message;
          destination = PREFIX_TOPIC_MESSAGE @ meth
      in (Inr (), put s json_message (Some destination) []))"

definition call ::
  "'cb world \<Rightarrow> 'cb session \<Rightarrow> string \<Rightarrow> json \<Rightarrow> 'cb \<Rightarrow> 'cb \<Rightarrow> (py_error + unit) \<times> 'cb session" where
  "call W s meth p callback_success callback_error =
     (let trans_id = last_id s + 1;
          s1 = s\<lparr> last_id := trans_id \<rparr>;
          s2 = s1\<lparr> callbacks_success := (callbacks_success s1)(trans_id \<mapsto> callback_success) \<rparr>;
          s3 = s2\<lparr> callbacks_error := (callbacks_error s2)(trans_id \<mapsto> callback_error) \<rparr>;
          message = JObj [(JSONRPC_KEY_JSONRP, JStr JSONRPC_KEY_VERSION),
                          (JSONRPC_KEY_METHOD, JStr meth),
                          (JSONRPC_KEY_ID, JInt trans_id),
                          (JSONRPC_KEY_PARAMS, p)];
          json_message = json_dumps W message;
          destination = PREFIX_TOPIC_JOB @ meth
      in case reply_to_topic s3 of
           None \<Rightarrow> (Inl AttributeError, s3)
         | Some topic \<Rightarrow>
             (Inr (), put s3 json_message (Some destination) [(JSONRPC_KEY_REPLY_TO, topic)]))"

subsection \<open>Dispatch of one message\<close>

text \<open>
  \<^verbatim>\<open>table[key]\<close> for a key that came out of \<^verbatim>\<open>json.loads\<close>. The keys of
  \<^verbatim>\<open>methods\<close> and \<^verbatim>\<open>notifiers\<close> are strings, those of the two callback tables are
  the integers \<^verbatim>\<open>call\<close> allocated; \<^verbatim>\<open>True\<close> and \<^verbatim>\<open>False\<close> hash and compare as
  1 and 0; a list or a dict is unhashable (\<^verbatim>\<open>TypeError\<close>); anything else that is not
  in the table is a \<^verbatim>\<open>KeyError\<close>.
\<close>

fun lookup_name :: "(string \<rightharpoonup> 'cb) \<Rightarrow> json \<Rightarrow> py_error + 'cb" where
  "lookup_name tbl (JStr n) = (case tbl n of None \<Rightarrow> Inl KeyError | Some h \<Rightarrow> Inr h)"
| "lookup_name tbl (JList xs) = Inl TypeError"
| "lookup_name tbl (JObj d) = Inl TypeError"
| "lookup_name tbl _ = Inl KeyError"

fun lookup_id :: "(int \<rightharpoonup> 'cb) \<Rightarrow> json \<Rightarrow> py_error + 'cb" where
  "lookup_id tbl (JInt n) = (case tbl n of None \<Rightarrow> Inl KeyError | Some h \<Rightarrow> Inr h)"
| "lookup_id tbl (JBool b) =
     (case tbl (if b then 1 else 0) of None \<Rightarrow> Inl KeyError | Some h \<Rightarrow> Inr h)"
| "lookup_id tbl (JList xs) = Inl TypeError"
| "lookup_id tbl (JObj d) = Inl TypeError"
| "lookup_id tbl _ = Inl KeyError"

text \<open>\<^verbatim>\<open>json.loads(x)\<close> on a decoded value: a \<^verbatim>\<open>TypeError\<close> unless \<open>x\<close> is a
  string, a \<^verbatim>\<open>ValueError\<close> when the string is not JSON.\<close>

fun py_json_loads :: "'cb world \<Rightarrow> json \<Rightarrow> py_error + json" where
  "py_json_loads W (JStr s) = (case json_loads W s of None \<Rightarrow> Inl ValueError | Some v \<Rightarrow> Inr v)"
| "py_json_loads W _ = Inl TypeError"

text \<open>The first statement of the \<^verbatim>\<open>try\<close> block of the job branch:
  \<^verbatim>\<open>if len(rpco.params)>0: params = json.loads(rpco.params) else: params = {}\<close>.\<close>

definition decode_params :: "'cb world \<Rightarrow> json \<Rightarrow> py_error + json" where
  "decode_params W rpco_params =
     (case py_len rpco_params of
        Inl e \<Rightarrow> Inl e
      | Inr n \<Rightarrow> if n > 0 then py_json_loads W rpco_params else Inr (JObj []))"

definition result_response :: "json \<Rightarrow> json \<Rightarrow> json" where
  "result_response i res =
     JObj [(JSONRPC_KEY_JSONRP, JStr JSONRPC_KEY_VERSION),
           (JSONRPC_KEY_ID, i),
           (JSONRPC_KEY_RESULT, res)]"

definition error_response :: "json \<Rightarrow> json" where
  "error_response i =
     JObj [(JSONRPC_KEY_JSONRP, JStr JSONRPC_KEY_VERSION),
           (JSONRPC_KEY_ID, i),
           (JSONRPC_KEY_ERROR,
              JObj [(JSONRPC_KEY_ERROR_CODE, JInt JSONRPC_VALUE_ERROR_INT_ERR),
                    (JSONRPC_KEY_ERROR_MESSAGE, JStr JSONRPC_VALUE_MSG_INT_ERR)])]"

text \<open>The handler of \<^verbatim>\<open>except Exception\<close> in the job branch.\<close>

definition job_except :: "'cb world \<Rightarrow> 'cb session \<Rightarrow> rpc_object \<Rightarrow> 'cb session" where
  "job_except W s rpco = put s (json_dumps W (error_response (rpc_id rpco))) (reply_to rpco) []"

text \<open>The job branch: the \<^verbatim>\<open>try\<close> block, every exception of which ends in
  \<open>job_except\<close>. In \<^verbatim>\<open>self.methods[rpco.method](**params)\<close> the handler is looked
  up before the arguments are unpacked.\<close>

definition process_job :: "'cb world \<Rightarrow> 'cb session \<Rightarrow> rpc_object \<Rightarrow> 'cb session" where
  "process_job W s rpco =
     (case decode_params W (params rpco) of
        Inl e \<Rightarrow> job_except W s rpco
      | Inr p \<Rightarrow>
          (case lookup_name (methods s) (rpc_method rpco) of
             Inl e \<Rightarrow> job_except W s rpco
           | Inr h \<Rightarrow>
               (case kwargs p of
                  Inl e \<Rightarrow> job_except W s rpco
                | Inr kw \<Rightarrow>
                    (case call_handler W s h (KwArgs kw) of
                       (Inl e, s1) \<Rightarrow> job_except W s1 rpco
                     | (Inr res, s1) \<Rightarrow>
                         put s1 (json_dumps W (result_response (rpc_id rpco) res))
                           (reply_to rpco) []))))"

text \<open>The notification branch, \<^verbatim>\<open>self.notifiers[rpco.notification](**rpco.params)\<close>,
  outside any \<^verbatim>\<open>try\<close>.\<close>

definition process_notification ::
  "'cb world \<Rightarrow> 'cb session \<Rightarrow> rpc_object \<Rightarrow> (py_error + unit) \<times> 'cb session" where
  "process_notification W s rpco =
     (case notification rpco of
        None \<Rightarrow> (Inl AttributeError, s)
      | Some n \<Rightarrow>
          (case lookup_name (notifiers s) (JStr n) of
             Inl e \<Rightarrow> (Inl e, s)
           | Inr h \<Rightarrow>
               (case kwargs (params rpco) of
                  Inl e \<Rightarrow> (Inl e, s)
                | Inr kw \<Rightarrow>
                    (case call_handler W s h (KwArgs kw) of
                       (Inl e, s1) \<Rightarrow> (Inl e, s1)
                     | (Inr v, s1) \<Rightarrow> (Inr (), s1)))))"

text \<open>The callback branch, outside any \<^verbatim>\<open>try\<close> as well.\<close>

definition process_callback ::
  "'cb world \<Rightarrow> 'cb session \<Rightarrow> rpc_object \<Rightarrow> (py_error + unit) \<times> 'cb session" where
  "process_callback W s rpco =
     (if message_type rpco = Some MSG_TYPE_CALLBACK_SUCCESS then
        (case lookup_id (callbacks_success s) (rpc_id rpco) of
           Inl e \<Rightarrow> (Inl e, s)
         | Inr h \<Rightarrow>
             (case call_handler W s h (PosArg (result rpco)) of
                (Inl e, s1) \<Rightarrow> (Inl e, s1)
              | (Inr v, s1) \<Rightarrow> (Inr (), s1)))
      else
        (case lookup_id (callbacks_error s) (rpc_id rpco) of
           Inl e \<Rightarrow> (Inl e, s)
         | Inr h \<Rightarrow>
             (case call_handler W s h (PosArg (error rpco)) of
                (Inl e, s1) \<Rightarrow> (Inl e, s1)
              | (Inr v, s1) \<Rightarrow> (Inr (), s1))))"

text \<open>\<^verbatim>\<open>_process_message\<close>: the outcome (\<open>Inl\<close> is the exception that leaves the
  method) and the session afterwards.\<close>

definition process_message ::
  "'cb world \<Rightarrow> 'cb session \<Rightarrow> message \<Rightarrow> (py_error + unit) \<times> 'cb session" where
  "process_message W s m =
     (if body m = MSG_QUIT then (Inr (), s\<lparr> listen := Some False \<rparr>)
      else
        (case JSONRPCObject (json_loads W) m of
           Inl e \<Rightarrow> (Inl e, s)
         | Inr rpco \<Rightarrow>
             (case is_job rpco of
                Inl e \<Rightarrow> (Inl e, s)
              | Inr j \<Rightarrow>
                  if j then (Inr (), process_job W s rpco)
                  else
                    (case is_notification rpco of
                       Inl e \<Rightarrow> (Inl e, s)
                     | Inr n \<Rightarrow>
                         if n then process_notification W s rpco
                         else
                           (case is_callback rpco of
                              Inl e \<Rightarrow> (Inl e, s)
                            | Inr c \<Rightarrow>
                                if c then process_callback W s rpco
                                else (Inl NotImplementedError, s))))))"

subsection \<open>The dispatch loop\<close>

text \<open>
  One answer of the inherited \<^verbatim>\<open>get\<close>: a message, or an exception. The loop of
  \<^verbatim>\<open>run\<close> over the answers \<^verbatim>\<open>get\<close> gives: it ends because \<^verbatim>\<open>listen\<close> is no
  longer true (\<open>Stopped\<close>), because an exception leaves \<^verbatim>\<open>_process_message\<close>, which
  is called in the \<^verbatim>\<open>else\<close> part of the \<^verbatim>\<open>try\<close> statement (\<open>Crashed\<close>), or it
  is waiting in \<^verbatim>\<open>get\<close> after the last answer (\<open>Blocked\<close>).
\<close>

datatype recv = Recv message | RecvFail

datatype 'cb run_result =
    Stopped "'cb session"
  | Crashed py_error "'cb session"
  | Blocked "'cb session"

fun run_loop :: "'cb world \<Rightarrow> 'cb session \<Rightarrow> recv list \<Rightarrow> 'cb run_result" where
  "run_loop W s [] = (if listen s = Some True then Blocked s else Stopped s)"
| "run_loop W s (x # xs) =
     (if listen s = Some True then
        (case x of
           RecvFail \<Rightarrow> run_loop W (s\<lparr> trace := trace s @ [Sleep DEFAULT_RETRY_TIME] \<rparr>) xs
         | Recv message \<Rightarrow>
             (case process_message W s message of
                (Inl e, s1) \<Rightarrow> Crashed e s1
              | (Inr u, s1) \<Rightarrow> run_loop W s1 xs))
      else Stopped s)"

definition run :: "'cb world \<Rightarrow> 'cb session \<Rightarrow> recv list \<Rightarrow> 'cb run_result" where
  "run W s inputs = run_loop W (s\<lparr> listen := Some True \<rparr>) inputs"

subsection \<open>Sequences of operations on one session\<close>

text \<open>
  The public operations of a session, to state properties of every sequence of them. An
  exception raised by an operation is the caller's to handle and leaves the session as
  the operation left it; a \<^verbatim>\<open>connect\<close> that never succeeds and a \<^verbatim>\<open>run\<close> that
  stays blocked do not return, so nothing follows them (\<open>None\<close>).
\<close>

datatype 'cb operation =
    OpConnect "bool list" string
  | OpDisconnect
  | OpAcceptNotifications json 'cb
  | OpAcceptCalls json 'cb
  | OpNotify string json
  | OpCall string json 'cb 'cb
  | OpProcessMessage message
  | OpRun "recv list"

fun exec_op :: "'cb world \<Rightarrow> 'cb session \<Rightarrow> 'cb operation \<Rightarrow> 'cb session option" where
  "exec_op W s (OpConnect attempts random_string) = connect s attempts random_string"
| "exec_op W s OpDisconnect = Some (disconnect s)"
| "exec_op W s (OpAcceptNotifications meth cb) = Some (snd (accept_notifications s meth cb))"
| "exec_op W s (OpAcceptCalls meth cb) = Some (snd (accept_calls s meth cb))"
| "exec_op W s (OpNotify meth p) = Some (snd (notify W s meth p))"
| "exec_op W s (OpCall meth p on_s on_e) = Some (snd (call W s meth p on_s on_e))"
| "exec_op W s (OpProcessMessage m) = Some (snd (process_message W s m))"
| "exec_op W s (OpRun inputs) =
     (case run W s inputs of
        Stopped s1 \<Rightarrow> Some s1
      | Crashed e s1 \<Rightarrow> Some s1
      | Blocked s1 \<Rightarrow> None)"

text \<open>The correlation ids given out by the calls of a sequence of operations, in order:
  after each \<^verbatim>\<open>call\<close> the id it used is the value of \<^verbatim>\<open>last_id\<close>.\<close>

fun allocated_ids :: "'cb world \<Rightarrow> 'cb session \<Rightarrow> 'cb operation list \<Rightarrow> int list" where
  "allocated_ids W s [] = []"
| "allocated_ids W s (opn # ops) =
     (case exec_op W s opn of
        None \<Rightarrow> []
      | Some s1 \<Rightarrow>
          (case opn of
             OpCall meth p on_s on_e \<Rightarrow> last_id s1 # allocated_ids W s1 ops
           | _ \<Rightarrow> allocated_ids W s1 ops))"

text \<open>The events a step appended to the trace, and the messages published among them.\<close>

definition new_events :: "'cb session \<Rightarrow> 'cb session \<Rightarrow> 'cb event list" where
  "new_events s s1 = drop (length (trace s)) (trace s1)"

fun is_Put :: "'cb event \<Rightarrow> bool" where
  "is_Put (Put item destination conf) = True"
| "is_Put _ = False"

subsection \<open>Sample inputs\<close>

text \<open>
  Concrete inputs on which the theorems below are exercised. Handlers are named by
  strings; the handler \<open>''boom''\<close> raises, every other one returns 5. \<open>sample_loads\<close>
  decodes the few bodies the samples use and \<open>sample_dumps\<close> tells the two kinds of
  reply envelope apart.
\<close>

definition sample_loads :: "string \<Rightarrow> json option" where
  "sample_loads b =
     (if b = ''{method: ping, params: {}}'' then
        Some (JObj [(''method'', JStr ''ping''), (''params'', JObj [])])
      else if b = ''{method: ping, params: {level: 3}}'' then
        Some (JObj [(''method'', JStr ''ping''), (''params'', JObj [(''level'', JInt 3)])])
      else if b = ''{method: ping}'' then
        Some (JObj [(''method'', JStr ''ping'')])
      else if b = ''{id: 1, result: 5}'' then
        Some (JObj [(''id'', JInt 1), (''result'', JInt 5)])
      else if b = ''{id: 1, result: null}'' then
        Some (JObj [(''id'', JInt 1), (''result'', JNull)])
      else if b = ''{id: 1}'' then
        Some (JObj [(''id'', JInt 1)])
      else if b = ''{id: 1, error: {code: -32603}}'' then
        Some (JObj [(''id'', JInt 1), (''error'', JObj [(''code'', JInt (- 32603))])])
      else if b = ''{id: 7, method: add}'' then
        Some (JObj [(''id'', JInt 7), (''method'', JStr ''add'')])
      else if b = ''{id: 7, method: add, params: <empty string>}'' then
        Some (JObj [(''id'', JInt 7), (''method'', JStr ''add''), (''params'', JStr [])])
      else if b = ''{id: 7, method: add, params: <string {x: 2, y: 3}>}'' then
        Some (JObj [(''id'', JInt 7), (''method'', JStr ''add''),
                    (''params'', JStr ''{x: 2, y: 3}'')])
      else if b = ''{x: 2, y: 3}'' then
        Some (JObj [(''x'', JInt 2), (''y'', JInt 3)])
      else None)"

definition sample_dumps :: "json \<Rightarrow> string" where
  "sample_dumps j =
     (case j of
        JObj d \<Rightarrow>
          (if map_of d ''error'' \<noteq> None then ''<error envelope>''
           else if map_of d ''result'' \<noteq> None then ''<result envelope>''
           else ''<request envelope>'')
      | _ \<Rightarrow> ''<value>'')"

definition sample_world :: "string world" where
  "sample_world =
     \<lparr> invoke = (\<lambda>h a. if h = ''boom'' then Inl (OtherException ''boom'') else Inr (JInt 5)),
       json_loads = sample_loads,
       json_dumps = sample_dumps \<rparr>"

definition sample_message :: "string \<Rightarrow> string \<Rightarrow> message" where
  "sample_message destination b = \<lparr> headers = [''destination'' \<mapsto> destination], body = b \<rparr>"

definition sample_job :: "string \<Rightarrow> string \<Rightarrow> message" where
  "sample_job name b =
     \<lparr> headers = [''destination'' \<mapsto> ''/topic/req.local.'' @ name,
                  ''reply-to'' \<mapsto> ''/topic/reply-CALLER''],
       body = b \<rparr>"

text \<open>A session after a failed and a successful attempt to connect.\<close>

definition sample_session :: "string session" where
  "sample_session = the (connect JSONRPCStomp_init [False, True] ''ABCDEFGH12345678'')"

text \<open>The same session after registering two methods and two notifications.\<close>

definition sample_server :: "string session" where
  "sample_server =
     snd (accept_notifications
            (snd (accept_notifications
                    (snd (accept_calls
                            (snd (accept_calls sample_session (JStr ''add'') ''adder''))
                            (JStr ''fail'') ''boom''))
                    (JStr ''ping'') ''pinger''))
            (JStr ''alarm'') ''boom'')"

section \<open>Properties of the classification\<close>

lemma str_find_prefix: "sep \<noteq> [] \<Longrightarrow> prefix sep s \<Longrightarrow> str_find sep s = Some 0"
  by (cases s) auto

lemma partition_last_prefixed: "sep \<noteq> [] \<Longrightarrow> partition_last (sep @ n) sep = n"
  by (simp add: partition_last_def partition_str_def str_find_prefix)

lemma str_find_None: "str_find sep s = None \<Longrightarrow> partition_last s sep = []"
  by (simp add: partition_last_def partition_str_def)

lemma dict_get_filter:
  "k \<noteq> k' \<Longrightarrow> dict_get (filter (\<lambda>kv. fst kv \<noteq> k') d) k = dict_get d k"
  by (induction d) (auto simp: dict_get_def)

lemma dict_get_filter_same: "dict_get (filter (\<lambda>kv. fst kv \<noteq> k) d) k = JNull"
  by (induction d) (auto simp: dict_get_def)

lemma reply_not_job: "startswith dest PREFIX_REPLY \<Longrightarrow> \<not> startswith dest PREFIX_TOPIC_JOB"
  by (auto simp: startswith_def prefix_def)

text \<open>
  Claim C4. A message whose envelope has no \<open>id\<close> (the key is missing, or bound to
  \<^verbatim>\<open>null\<close>) is classified as a notification whatever its destination is. The
  notification name is the last part of \<^verbatim>\<open>destination.partition(PREFIX_TOPIC_MESSAGE)\<close>:
  for a destination that is the prefix followed by \<open>n\<close> it is \<open>n\<close>, and it is empty
  when the prefix does not occur in the destination.
\<close>

theorem classify_without_id:
  assumes "loads (body m) = Some (JObj d)"
      and "dict_get d JSONRPC_KEY_ID = JNull"
      and "headers m ''destination'' = Some dest"
  shows "\<exists>r. JSONRPCObject loads m = Inr r
           \<and> message_type r = Some MSG_TYPE_NOT
           \<and> is_notification r = Inr True
           \<and> notification r = Some (partition_last dest PREFIX_TOPIC_MESSAGE)
           \<and> (\<forall>n. dest = PREFIX_TOPIC_MESSAGE @ n \<longrightarrow> notification r = Some n)
           \<and> (str_find PREFIX_TOPIC_MESSAGE dest = None \<longrightarrow> notification r = Some [])"
  using assms partition_last_prefixed[of PREFIX_TOPIC_MESSAGE]
  by (auto simp: JSONRPCObject_def is_notification_def str_find_None)

theorem classify_without_id_witness:
  "\<exists>r. JSONRPCObject sample_loads
          (sample_message ''/topic/msg.local.ping'' ''{method: ping, params: {}}'') = Inr r
       \<and> message_type r = Some MSG_TYPE_NOT
       \<and> notification r = Some ''ping''"
  using classify_without_id[of sample_loads
          "sample_message ''/topic/msg.local.ping'' ''{method: ping, params: {}}''"
          "[(''method'', JStr ''ping''), (''params'', JObj [])]" "''/topic/msg.local.ping''"]
  by (auto simp add: sample_loads_def sample_message_def dict_get_def)



text \<open>
  Claim C10. When the envelope has an \<open>id\<close>, the destination starts with the
  reply-topic prefix and the key \<open>result\<close> is bound to \<^verbatim>\<open>null\<close>, the message is
  classified as an error callback; and the classification is the same as that of the
  message whose envelope has the key \<open>result\<close> removed.
\<close>

theorem classify_null_result:
  assumes "loads (body m) = Some (JObj d)"
      and "dict_get d JSONRPC_KEY_ID \<noteq> JNull"
      and "headers m ''destination'' = Some dest"
      and "startswith dest PREFIX_REPLY"
      and "map_of d JSONRPC_KEY_RESULT = Some JNull"
  shows "(\<exists>r. JSONRPCObject loads m = Inr r \<and> message_type r = Some MSG_TYPE_CALLBACK_ERROR)
       \<and> (\<forall>m'. headers m' = headers m
             \<and> loads (body m') = Some (JObj (filter (\<lambda>kv. fst kv \<noteq> JSONRPC_KEY_RESULT) d))
             \<longrightarrow> JSONRPCObject loads m' = JSONRPCObject loads m)"
  using assms reply_not_job[of dest]
  by (auto simp: JSONRPCObject_def Let_def dict_get_filter dict_get_filter_same)
     (simp_all add: dict_get_def)

theorem classify_null_result_witness:
  "(\<exists>r. JSONRPCObject sample_loads
          (sample_message ''/topic/reply-XYZ'' ''{id: 1, result: null}'') = Inr r
        \<and> message_type r = Some MSG_TYPE_CALLBACK_ERROR)
   \<and> JSONRPCObject sample_loads (sample_message ''/topic/reply-XYZ'' ''{id: 1}'') =
     JSONRPCObject sample_loads (sample_message ''/topic/reply-XYZ'' ''{id: 1, result: null}'')"
proof -
  have id1: "sample_loads ''{id: 1}'' = Some (JObj [(''id'', JInt 1)])"
    by (simp add: sample_loads_def)
  from classify_null_result[of sample_loads
          "sample_message ''/topic/reply-XYZ'' ''{id: 1, result: null}''"
          "[(''id'', JInt 1), (''result'', JNull)]" "''/topic/reply-XYZ''"]
  have "(\<exists>r. JSONRPCObject sample_loads
               (sample_message ''/topic/reply-XYZ'' ''{id: 1, result: null}'') = Inr r
            \<and> message_type r = Some MSG_TYPE_CALLBACK_ERROR)
      \<and> (\<forall>m'. headers m' = headers (sample_message ''/topic/reply-XYZ'' ''{id: 1, result: null}'')
             \<and> sample_loads (body m') = Some (JObj [(''id'', JInt 1)])
             \<longrightarrow> JSONRPCObject sample_loads m' =
                 JSONRPCObject sample_loads
                   (sample_message ''/topic/reply-XYZ'' ''{id: 1, result: null}''))"
    by (simp add: sample_loads_def sample_message_def dict_get_def startswith_def)
  then show ?thesis
    using id1 by (auto simp: sample_message_def)
qed

section \<open>Properties of the session\<close>

subsection \<open>What dispatch leaves unchanged\<close>

lemma process_job_frame:
  "methods (process_job W s r) = methods s \<and> notifiers (process_job W s r) = notifiers s
   \<and> callbacks_success (process_job W s r) = callbacks_success s
   \<and> callbacks_error (process_job W s r) = callbacks_error s
   \<and> is_connected (process_job W s r) = is_connected s
   \<and> last_id (process_job W s r) = last_id s
   \<and> reply_to_topic (process_job W s r) = reply_to_topic s
   \<and> listen (process_job W s r) = listen s"
  by (simp add: process_job_def job_except_def put_def call_handler_def
           split: sum.splits prod.splits)

lemma process_notification_frame:
  "methods (snd (process_notification W s r)) = methods s
   \<and> notifiers (snd (process_notification W s r)) = notifiers s
   \<and> callbacks_success (snd (process_notification W s r)) = callbacks_success s
   \<and> callbacks_error (snd (process_notification W s r)) = callbacks_error s
   \<and> is_connected (snd (process_notification W s r)) = is_connected s
   \<and> last_id (snd (process_notification W s r)) = last_id s
   \<and> reply_to_topic (snd (process_notification W s r)) = reply_to_topic s
   \<and> listen (snd (process_notification W s r)) = listen s"
  by (simp add: process_notification_def call_handler_def
           split: sum.splits prod.splits option.splits)

lemma process_callback_frame:
  "methods (snd (process_callback W s r)) = methods s
   \<and> notifiers (snd (process_callback W s r)) = notifiers s
   \<and> callbacks_success (snd (process_callback W s r)) = callbacks_success s
   \<and> callbacks_error (snd (process_callback W s r)) = callbacks_error s
   \<and> is_connected (snd (process_callback W s r)) = is_connected s
   \<and> last_id (snd (process_callback W s r)) = last_id s
   \<and> reply_to_topic (snd (process_callback W s r)) = reply_to_topic s
   \<and> listen (snd (process_callback W s r)) = listen s"
  by (simp add: process_callback_def call_handler_def
           split: sum.splits prod.splits option.splits)

lemma process_message_frame:
  "methods (snd (process_message W s m)) = methods s
   \<and> notifiers (snd (process_message W s m)) = notifiers s
   \<and> callbacks_success (snd (process_message W s m)) = callbacks_success s
   \<and> callbacks_error (snd (process_message W s m)) = callbacks_error s
   \<and> is_connected (snd (process_message W s m)) = is_connected s
   \<and> last_id (snd (process_message W s m)) = last_id s
   \<and> reply_to_topic (snd (process_message W s m)) = reply_to_topic s"
  unfolding process_message_def
  by (simp add: process_job_frame process_notification_frame process_callback_frame
           split: sum.splits)

lemma run_loop_frame:
  "run_loop W s xs = Stopped s1 \<or> run_loop W s xs = Crashed e s1 \<or> run_loop W s xs = Blocked s1
     \<Longrightarrow> last_id s1 = last_id s \<and> callbacks_success s1 = callbacks_success s
         \<and> callbacks_error s1 = callbacks_error s"
proof (induction xs arbitrary: s)
  case Nil
  then show ?case by (auto split: if_splits)
next
  case (Cons x xs)
  show ?case
  proof (cases "listen s = Some True")
    case False
    with Cons.prems show ?thesis by auto
  next
    case True
    show ?thesis
    proof (cases x)
      case RecvFail
      with True Cons.prems Cons.IH[of "s\<lparr> trace := trace s @ [Sleep DEFAULT_RETRY_TIME] \<rparr>"]
      show ?thesis by simp
    next
      case (Recv m)
      obtain r s2 where pm: "process_message W s m = (r, s2)"
        by (cases "process_message W s m")
      have l2: "last_id s2 = last_id s \<and> callbacks_success s2 = callbacks_success s
                \<and> callbacks_error s2 = callbacks_error s"
        using process_message_frame[of W s m] pm by simp
      show ?thesis
      proof (cases r)
        case (Inl err)
        with True Recv pm Cons.prems l2 show ?thesis by auto
      next
        case (Inr u)
        with True Recv pm Cons.prems have
          "run_loop W s2 xs = Stopped s1 \<or> run_loop W s2 xs = Crashed e s1
           \<or> run_loop W s2 xs = Blocked s1"
          by simp
        from Cons.IH[OF this] l2 show ?thesis by simp
      qed
    qed
  qed
qed

lemma connect_loop_frame:
  "connect_loop s xs = Some s1 \<Longrightarrow>
     last_id s1 = last_id s \<and> callbacks_success s1 = callbacks_success s
     \<and> callbacks_error s1 = callbacks_error s"
  by (induction xs arbitrary: s) (auto split: if_splits)

lemma connect_frame:
  "connect s xs r = Some s1 \<Longrightarrow>
     last_id s1 = last_id s \<and> callbacks_success s1 = callbacks_success s
     \<and> callbacks_error s1 = callbacks_error s"
  by (auto simp: connect_def subscribe_def Let_def dest: connect_loop_frame split: option.splits)

lemma call_tables:
  "last_id (snd (call W s meth p a b)) = last_id s + 1
   \<and> callbacks_success (snd (call W s meth p a b)) = (callbacks_success s)(last_id s + 1 \<mapsto> a)
   \<and> callbacks_error (snd (call W s meth p a b)) = (callbacks_error s)(last_id s + 1 \<mapsto> b)"
  by (simp add: call_def put_def Let_def split: option.splits)

lemma exec_op_frame:
  assumes "exec_op W s opn = Some s1"
  shows "last_id s1 = (case opn of OpCall meth p a b \<Rightarrow> last_id s + 1 | _ \<Rightarrow> last_id s)
       \<and> callbacks_success s1 =
           (case opn of OpCall meth p a b \<Rightarrow> (callbacks_success s)(last_id s + 1 \<mapsto> a)
            | _ \<Rightarrow> callbacks_success s)
       \<and> callbacks_error s1 =
           (case opn of OpCall meth p a b \<Rightarrow> (callbacks_error s)(last_id s + 1 \<mapsto> b)
            | _ \<Rightarrow> callbacks_error s)"
proof (cases opn)
  case (OpConnect xs r)
  with assms connect_frame[of s xs r s1] show ?thesis by simp
next
  case OpDisconnect
  with assms show ?thesis by (auto simp: disconnect_def)
next
  case (OpAcceptNotifications meth cb)
  with assms show ?thesis
    by (auto simp: accept_notifications_def subscribe_def Let_def split: json.splits)
next
  case (OpAcceptCalls meth cb)
  with assms show ?thesis
    by (auto simp: accept_calls_def subscribe_def Let_def split: json.splits)
next
  case (OpNotify meth p)
  with assms show ?thesis by (auto simp: notify_def put_def Let_def)
next
  case (OpCall meth p a b)
  with assms call_tables[of W s meth p a b] show ?thesis by auto
next
  case (OpProcessMessage m)
  with assms process_message_frame[of W s m] show ?thesis by auto
next
  case (OpRun xs)
  with assms show ?thesis
    using run_loop_frame[of W "s\<lparr> listen := Some True \<rparr>" xs s1]
    by (auto simp: run_def split: run_result.splits)
qed

lemma sample_session_eq:
  "sample_session =
     \<lparr> methods = Map.empty, notifiers = Map.empty,
       callbacks_success = Map.empty, callbacks_error = Map.empty,
       is_connected = True, last_id = 0,
       reply_to_topic = Some ''/topic/reply-ABCDEFGH12345678'', listen = None,
       trace = [TransportConnect False, Sleep DEFAULT_RETRY_TIME, TransportConnect True,
                Subscribe ''/topic/reply-ABCDEFGH12345678'' ACK_CLIENT] \<rparr>"
  by (simp add: sample_session_def connect_def JSONRPCStomp_init_def subscribe_def Let_def)


subsection \<open>Correlation ids\<close>

lemma allocated_ids_eq:
  "allocated_ids W s ops =
     map (\<lambda>k. last_id s + 1 + int k) [0..<length (allocated_ids W s ops)]"
proof (induction ops arbitrary: s)
  case Nil
  show ?case by simp
next
  case (Cons opn ops)
  show ?case
  proof (cases "exec_op W s opn")
    case None
    then show ?thesis by simp
  next
    case (Some s1)
    note l = exec_op_frame[OF Some, THEN conjunct1]
    show ?thesis
    proof (cases "\<exists>meth p a b. opn = OpCall meth p a b")
      case True
      then obtain meth p a b where oc: "opn = OpCall meth p a b" by blast
      let ?n = "length (allocated_ids W s1 ops)"
      have l1: "last_id s1 = last_id s + 1" using l oc by simp
      have step: "allocated_ids W s (opn # ops) = last_id s1 # allocated_ids W s1 ops"
        using Some oc by simp
      have "allocated_ids W s1 ops = map (\<lambda>k. last_id s1 + 1 + int k) [0..<?n]"
        by (rule Cons.IH)
      also have "\<dots> = map (\<lambda>k. last_id s + 1 + int k) (map Suc [0..<?n])"
        using l1 by (simp add: add.assoc)
      finally have tl: "allocated_ids W s1 ops = map (\<lambda>k. last_id s + 1 + int k) [Suc 0..<Suc ?n]"
        by (simp only: map_Suc_upt)
      have "map (\<lambda>k. last_id s + 1 + int k) [0..<Suc ?n]
              = (last_id s + 1) # map (\<lambda>k. last_id s + 1 + int k) [Suc 0..<Suc ?n]"
        by (simp add: upt_conv_Cons del: upt_Suc)
      with tl l1 have "last_id s1 # allocated_ids W s1 ops
              = map (\<lambda>k. last_id s + 1 + int k) [0..<Suc ?n]"
        by simp
      with step show ?thesis by simp
    next
      case False
      then have same: "last_id s1 = last_id s" using l by (cases opn) auto
      from False have "allocated_ids W s (opn # ops) = allocated_ids W s1 ops"
        using Some by (cases opn) auto
      with Cons.IH[of s1] same show ?thesis by simp
    qed
  qed
qed

lemma ids_sorted: "sorted_wrt (<) (map (\<lambda>k. (a::int) + int k) [0..<n])"
  by (simp add: sorted_wrt_map)

lemma ids_distinct: "distinct (map (\<lambda>k. (a::int) + int k) [0..<n])"
  by (simp add: distinct_map inj_on_def)


text \<open>
  Claim C6. The counter \<open>last_id\<close> starts at 0; \<^verbatim>\<open>call\<close> increments it and uses
  the incremented value as the key of both callback tables; \<^verbatim>\<open>disconnect\<close> and
  \<^verbatim>\<open>connect\<close> leave it alone. Hence, for every sequence of operations on a session
  (calls to any methods, connects, disconnects, registrations, notifications, dispatched
  messages), the ids given out are the successive integers after the initial value of
  the counter: strictly increasing, pairwise distinct, and larger than every id given
  out before.
\<close>

theorem correlation_ids_strictly_increasing:
  "last_id (JSONRPCStomp_init :: 'cb session) = 0
   \<and> last_id (snd (call W s meth p on_s on_e)) = last_id s + 1
   \<and> callbacks_success (snd (call W s meth p on_s on_e)) (last_id s + 1) = Some on_s
   \<and> callbacks_error (snd (call W s meth p on_s on_e)) (last_id s + 1) = Some on_e
   \<and> last_id (disconnect s) = last_id s
   \<and> (\<forall>s1. connect s attempts random_string = Some s1 \<longrightarrow> last_id s1 = last_id s)
   \<and> allocated_ids W s ops =
        map (\<lambda>k. last_id s + 1 + int k) [0..<length (allocated_ids W s ops)]
   \<and> sorted_wrt (<) (allocated_ids W s ops)
   \<and> distinct (allocated_ids W s ops)
   \<and> (\<forall>i \<in> set (allocated_ids W s ops). last_id s < i)"
proof -
  let ?ids = "allocated_ids W s ops"
  have eq: "?ids = map (\<lambda>k. (last_id s + 1) + int k) [0..<length ?ids]"
    by (rule allocated_ids_eq)
  have srt: "sorted_wrt (<) ?ids" by (subst eq) (rule ids_sorted)
  have dst: "distinct ?ids" by (subst eq) (rule ids_distinct)
  have gt: "\<forall>i \<in> set ?ids. last_id s < i"
  proof
    fix i assume "i \<in> set ?ids"
    then have "i \<in> set (map (\<lambda>k. (last_id s + 1) + int k) [0..<length ?ids])"
      using eq by simp
    then show "last_id s < i" by auto
  qed
  have init: "last_id (JSONRPCStomp_init :: 'cb session) = 0"
    by (simp add: JSONRPCStomp_init_def)
  have dis: "last_id (disconnect s) = last_id s" by (simp add: disconnect_def)
  have con: "\<forall>s1. connect s attempts random_string = Some s1 \<longrightarrow> last_id s1 = last_id s"
    using connect_frame by blast
  from init call_tables[of W s meth p on_s on_e] dis con eq srt dst gt show ?thesis
    by simp
qed

theorem correlation_ids_strictly_increasing_witness:
  "allocated_ids sample_world JSONRPCStomp_init
     [OpCall ''add'' (JObj []) ''s1'' ''e1'',
      OpConnect [True] ''ABCDEFGH12345678'',
      OpCall ''add'' (JObj []) ''s2'' ''e2'',
      OpDisconnect,
      OpConnect [False, True] ''ZZZZZZZZZZZZZZZZ'',
      OpCall ''mul'' (JObj []) ''s3'' ''e3''] = [1, 2, 3]"
  using correlation_ids_strictly_increasing[of sample_world JSONRPCStomp_init
     "''add''" "JObj []" "''s1''" "''e1''" "[]" "[]"
     "[OpCall ''add'' (JObj []) ''s1'' ''e1'',
      OpConnect [True] ''ABCDEFGH12345678'',
      OpCall ''add'' (JObj []) ''s2'' ''e2'',
      OpDisconnect,
      OpConnect [False, True] ''ZZZZZZZZZZZZZZZZ'',
      OpCall ''mul'' (JObj []) ''s3'' ''e3'']"]
  by (simp add: JSONRPCStomp_init_def call_def put_def connect_def disconnect_def
        subscribe_def Let_def)

subsection \<open>Registration of methods\<close>

text \<open>
  Claim C7, as the code has it. On a connected session \<^verbatim>\<open>accept_calls\<close> with a
  string name stores the handler and subscribes to the job topic of that name with the
  acknowledgment mode \<^verbatim>\<open>ACK_AUTO\<close>, the same mode \<^verbatim>\<open>accept_notifications\<close> uses.
\<close>

theorem accept_calls_subscribes_auto:
  assumes "is_connected s"
  shows "accept_calls s (JStr name) callback =
           (Inr (), s\<lparr> methods := (methods s)(name \<mapsto> callback),
                        trace := trace s @ [Subscribe (PREFIX_TOPIC_JOB @ name) ACK_AUTO] \<rparr>)"
  using assms by (simp add: accept_calls_def subscribe_def Let_def)

theorem accept_calls_subscribes_auto_witness:
  "is_connected sample_session
   \<and> trace (snd (accept_calls sample_session (JStr ''echo'') ''h'')) =
       trace sample_session @ [Subscribe ''/topic/req.local.echo'' ''auto'']"
  using accept_calls_subscribes_auto[of sample_session "''echo''" "''h''"]
  by (simp add: sample_session_eq)


text \<open>Claim C7 as stated fails: the subscription for the method \<open>echo\<close> is made with
  the mode \<open>auto\<close>, and no subscription with the mode \<open>client\<close> is made for it.\<close>

theorem accept_calls_client_ack_counterexample:
  "trace (snd (accept_calls sample_session (JStr ''echo'') ''h'')) =
     trace sample_session @ [Subscribe ''/topic/req.local.echo'' ''auto'']
   \<and> Subscribe ''/topic/req.local.echo'' ''client''
       \<notin> set (trace (snd (accept_calls sample_session (JStr ''echo'') ''h'')))"
  by (simp add: sample_session_eq accept_calls_def subscribe_def Let_def)


subsection \<open>Correlation entries are kept\<close>

text \<open>
  Claim C9. Dispatching any message leaves both callback tables as they were; so after
  a \<^verbatim>\<open>call\<close> and the dispatch of any message, the matching reply included, the
  entries the call stored under its id are still there. No operation of the session
  removes a key from either table.
\<close>

theorem callbacks_never_removed:
  "callbacks_success (snd (process_message W s m)) = callbacks_success s
   \<and> callbacks_error (snd (process_message W s m)) = callbacks_error s
   \<and> callbacks_success (snd (process_message W (snd (call W s meth p on_s on_e)) m))
        (last_id s + 1) = Some on_s
   \<and> callbacks_error (snd (process_message W (snd (call W s meth p on_s on_e)) m))
        (last_id s + 1) = Some on_e
   \<and> (\<forall>s1. exec_op W s opn = Some s1 \<longrightarrow>
         dom (callbacks_success s) \<subseteq> dom (callbacks_success s1)
         \<and> dom (callbacks_error s) \<subseteq> dom (callbacks_error s1))"
proof -
  have grow: "\<forall>s1. exec_op W s opn = Some s1 \<longrightarrow>
         dom (callbacks_success s) \<subseteq> dom (callbacks_success s1)
         \<and> dom (callbacks_error s) \<subseteq> dom (callbacks_error s1)"
  proof (intro allI impI)
    fix s1 assume "exec_op W s opn = Some s1"
    from exec_op_frame[OF this] show
      "dom (callbacks_success s) \<subseteq> dom (callbacks_success s1)
       \<and> dom (callbacks_error s) \<subseteq> dom (callbacks_error s1)"
      by (cases opn) auto
  qed
  from process_message_frame[of W s m]
       process_message_frame[of W "snd (call W s meth p on_s on_e)" m]
       call_tables[of W s meth p on_s on_e] grow
  show ?thesis by simp
qed


theorem callbacks_never_removed_witness:
  "callbacks_success
     (snd (process_message sample_world
            (snd (call sample_world sample_session ''add'' (JObj []) ''on_s'' ''on_e''))
            (sample_message ''/topic/reply-ABCDEFGH12345678'' ''{id: 1, result: 5}''))) 1
     = Some ''on_s''
   \<and> dom (callbacks_success sample_session)
       \<subseteq> dom (callbacks_success
                (snd (call sample_world sample_session ''add'' (JObj []) ''on_s'' ''on_e'')))"
  using callbacks_never_removed[of sample_world sample_session
          "sample_message ''/topic/reply-ABCDEFGH12345678'' ''{id: 1, result: 5}''"
          "''add''" "JObj []" "''on_s''" "''on_e''"
          "OpCall ''add'' (JObj []) ''on_s'' ''on_e''"]
  by (simp add: sample_session_eq)

subsection \<open>Dispatch of jobs\<close>

lemma rpco_of_job:
  assumes "loads (body m) = Some (JObj d)"
      and "dict_get d JSONRPC_KEY_ID \<noteq> JNull"
      and "headers m ''destination'' = Some (PREFIX_TOPIC_JOB @ name)"
  shows "JSONRPCObject loads m =
           Inr \<lparr> params = dict_get d JSONRPC_KEY_PARAMS,
                 rpc_method = JStr name,
                 rpc_id = dict_get d JSONRPC_KEY_ID,
                 result = dict_get d JSONRPC_KEY_RESULT,
                 error = dict_get d JSONRPC_KEY_ERROR,
                 message_type = Some MSG_TYPE_JOB,
                 notification = None,
                 reply_to = headers m JSONRPC_KEY_REPLY_TO \<rparr>"
  using assms partition_last_prefixed[of PREFIX_TOPIC_JOB name]
  by (simp add: JSONRPCObject_def Let_def startswith_def)

lemma rpco_of_notification:
  assumes "loads (body m) = Some (JObj d)"
      and "dict_get d JSONRPC_KEY_ID = JNull"
      and "headers m ''destination'' = Some dest"
  shows "JSONRPCObject loads m =
           Inr \<lparr> params = dict_get d JSONRPC_KEY_PARAMS,
                 rpc_method = dict_get d JSONRPC_KEY_METHOD,
                 rpc_id = JNull,
                 result = dict_get d JSONRPC_KEY_RESULT,
                 error = dict_get d JSONRPC_KEY_ERROR,
                 message_type = Some MSG_TYPE_NOT,
                 notification = Some (partition_last dest PREFIX_TOPIC_MESSAGE),
                 reply_to = None \<rparr>"
  using assms by (simp add: JSONRPCObject_def Let_def)


lemma process_message_job:
  assumes "body m \<noteq> MSG_QUIT"
      and "JSONRPCObject (json_loads W) m = Inr r"
      and "message_type r = Some MSG_TYPE_JOB"
  shows "process_message W s m = (Inr (), process_job W s r)"
  using assms by (simp add: process_message_def is_job_def)

lemma process_message_notification:
  assumes "body m \<noteq> MSG_QUIT"
      and "JSONRPCObject (json_loads W) m = Inr r"
      and "message_type r = Some MSG_TYPE_NOT"
  shows "process_message W s m = process_notification W s r"
  using assms by (simp add: process_message_def is_job_def is_notification_def)


lemma kwargs_Inr: "kwargs p = Inr kw \<longleftrightarrow> p = JObj kw"
  by (cases p) auto


lemma sample_server_eq:
  "sample_server =
     \<lparr> methods = [''add'' \<mapsto> ''adder'', ''fail'' \<mapsto> ''boom''],
       notifiers = [''ping'' \<mapsto> ''pinger'', ''alarm'' \<mapsto> ''boom''],
       callbacks_success = Map.empty, callbacks_error = Map.empty,
       is_connected = True, last_id = 0,
       reply_to_topic = Some ''/topic/reply-ABCDEFGH12345678'', listen = None,
       trace = [TransportConnect False, Sleep DEFAULT_RETRY_TIME, TransportConnect True,
                Subscribe ''/topic/reply-ABCDEFGH12345678'' ACK_CLIENT,
                Subscribe ''/topic/req.local.add'' ACK_AUTO,
                Subscribe ''/topic/req.local.fail'' ACK_AUTO,
                Subscribe ''/topic/msg.local.ping'' ACK_AUTO,
                Subscribe ''/topic/msg.local.alarm'' ACK_AUTO] \<rparr>"
  by (simp add: sample_server_def sample_session_eq accept_calls_def accept_notifications_def
        subscribe_def Let_def)


text \<open>
  Claim C3. For a job message (an envelope with an \<open>id\<close>, a destination that is the
  job-topic prefix followed by a name), unless the params decode to a dict, a handler is
  registered under the name and that handler returns, that is, on any failure of the
  decoding, of the lookup, of the unpacking or of the handler, exactly one message is
  published: the envelope with the original \<open>id\<close> and the error of code -32603 and
  message \<open>Internal error\<close>, sent to the value of the header \<open>reply-to\<close>; and no
  exception leaves \<^verbatim>\<open>_process_message\<close>.
\<close>

theorem job_failure_single_error_reply:
  assumes "body m \<noteq> MSG_QUIT"
      and "json_loads W (body m) = Some (JObj d)"
      and "dict_get d JSONRPC_KEY_ID \<noteq> JNull"
      and "headers m ''destination'' = Some (PREFIX_TOPIC_JOB @ name)"
      and "\<not> (\<exists>kw h v. decode_params W (dict_get d JSONRPC_KEY_PARAMS) = Inr (JObj kw)
                      \<and> methods s name = Some h
                      \<and> invoke W h (KwArgs kw) = Inr v)"
  shows "fst (process_message W s m) = Inr ()
       \<and> filter is_Put (new_events s (snd (process_message W s m))) =
           [Put (json_dumps W
                   (JObj [(''jsonrpc'', JStr ''2.0''),
                          (''id'', dict_get d JSONRPC_KEY_ID),
                          (''error'', JObj [(''code'', JInt (- 32603)),
                                            (''message'', JStr ''Internal error'')])]))
                (headers m ''reply-to'') []]"
proof -
  let ?r = "\<lparr> params = dict_get d JSONRPC_KEY_PARAMS, rpc_method = JStr name,
               rpc_id = dict_get d JSONRPC_KEY_ID, result = dict_get d JSONRPC_KEY_RESULT,
               error = dict_get d JSONRPC_KEY_ERROR, message_type = Some MSG_TYPE_JOB,
               notification = None, reply_to = headers m JSONRPC_KEY_REPLY_TO \<rparr>"
  have pm: "process_message W s m = (Inr (), process_job W s ?r)"
    using process_message_job[OF assms(1) rpco_of_job[of "json_loads W" m d name, OF assms(2,3,4)]]
    by simp
  have "filter is_Put (new_events s (process_job W s ?r)) =
           [Put (json_dumps W (error_response (dict_get d JSONRPC_KEY_ID)))
                (headers m ''reply-to'') []]"
    using assms(5)
    by (auto simp: process_job_def job_except_def put_def call_handler_def new_events_def
               kwargs_Inr
             split: sum.splits option.splits)
  with pm show ?thesis by (simp add: error_response_def)
qed

theorem job_failure_single_error_reply_witness:
  "filter is_Put
     (new_events sample_server
        (snd (process_message sample_world sample_server
                (sample_job ''fail'' ''{id: 7, method: add, params: <empty string>}''))))
   = [Put ''<error envelope>'' (Some ''/topic/reply-CALLER'') []]"
  using job_failure_single_error_reply[of
          "sample_job ''fail'' ''{id: 7, method: add, params: <empty string>}''"
          sample_world
          "[(''id'', JInt 7), (''method'', JStr ''add''), (''params'', JStr [])]"
          "''fail''" sample_server]
  by (simp add: sample_job_def sample_world_def sample_loads_def sample_dumps_def
        dict_get_def decode_params_def sample_server_eq)


text \<open>
  Claim C2, as the code has it. For a job message whose handler is registered: when the
  params have length 0 (an empty string, list or dict) the handler is called with no
  arguments; when the params are a non-empty string that \<^verbatim>\<open>json.loads\<close> decodes to a
  dict, the handler is called with the entries of that dict as keyword arguments. In
  both cases the handler is called once and one reply is published, carrying the
  handler's result, or the Internal-Error envelope if the handler raised.
\<close>

theorem job_invokes_handler_with_decoded_params:
  assumes "body m \<noteq> MSG_QUIT"
      and "json_loads W (body m) = Some (JObj d)"
      and "dict_get d JSONRPC_KEY_ID \<noteq> JNull"
      and "headers m ''destination'' = Some (PREFIX_TOPIC_JOB @ name)"
      and "methods s name = Some h"
      and "(py_len (dict_get d JSONRPC_KEY_PARAMS) = Inr 0 \<and> kw = [])
           \<or> (\<exists>str. dict_get d JSONRPC_KEY_PARAMS = JStr str \<and> str \<noteq> []
                    \<and> json_loads W str = Some (JObj kw))"
  shows "process_message W s m =
           (Inr (),
            s\<lparr> trace := trace s @
                 [Invoke h (KwArgs kw),
                  Put (json_dumps W
                         (case invoke W h (KwArgs kw) of
                            Inr v \<Rightarrow>
                              JObj [(''jsonrpc'', JStr ''2.0''),
                                    (''id'', dict_get d JSONRPC_KEY_ID),
                                    (''result'', v)]
                          | Inl e \<Rightarrow>
                              JObj [(''jsonrpc'', JStr ''2.0''),
                                    (''id'', dict_get d JSONRPC_KEY_ID),
                                    (''error'', JObj [(''code'', JInt (- 32603)),
                                                      (''message'', JStr ''Internal error'')])]))
                      (headers m ''reply-to'') []] \<rparr>)"
proof -
  let ?r = "\<lparr> params = dict_get d JSONRPC_KEY_PARAMS, rpc_method = JStr name,
               rpc_id = dict_get d JSONRPC_KEY_ID, result = dict_get d JSONRPC_KEY_RESULT,
               error = dict_get d JSONRPC_KEY_ERROR, message_type = Some MSG_TYPE_JOB,
               notification = None, reply_to = headers m JSONRPC_KEY_REPLY_TO \<rparr>"
  have pm: "process_message W s m = (Inr (), process_job W s ?r)"
    using process_message_job[OF assms(1) rpco_of_job[of "json_loads W" m d name, OF assms(2,3,4)]]
    by simp
  have dec: "decode_params W (dict_get d JSONRPC_KEY_PARAMS) = Inr (JObj kw)"
    using assms(6) by (auto simp: decode_params_def)
  show ?thesis
    unfolding pm
    using dec assms(5)
    by (simp add: process_job_def job_except_def put_def call_handler_def
          error_response_def result_response_def split: sum.splits)
qed


theorem job_invokes_handler_with_decoded_params_witness:
  "process_message sample_world sample_server
     (sample_job ''add'' ''{id: 7, method: add, params: <string {x: 2, y: 3}>}'') =
     (Inr (),
      sample_server\<lparr> trace := trace sample_server @
        [Invoke ''adder'' (KwArgs [(''x'', JInt 2), (''y'', JInt 3)]),
         Put ''<result envelope>'' (Some ''/topic/reply-CALLER'') []] \<rparr>)
   \<and> process_message sample_world sample_server
     (sample_job ''add'' ''{id: 7, method: add, params: <empty string>}'') =
     (Inr (),
      sample_server\<lparr> trace := trace sample_server @
        [Invoke ''adder'' (KwArgs []),
         Put ''<result envelope>'' (Some ''/topic/reply-CALLER'') []] \<rparr>)"
  using job_invokes_handler_with_decoded_params[of
          "sample_job ''add'' ''{id: 7, method: add, params: <string {x: 2, y: 3}>}''"
          sample_world
          "[(''id'', JInt 7), (''method'', JStr ''add''), (''params'', JStr ''{x: 2, y: 3}'')]"
          "''add''" sample_server "''adder''" "[(''x'', JInt 2), (''y'', JInt 3)]"]
        job_invokes_handler_with_decoded_params[of
          "sample_job ''add'' ''{id: 7, method: add, params: <empty string>}''"
          sample_world
          "[(''id'', JInt 7), (''method'', JStr ''add''), (''params'', JStr [])]"
          "''add''" sample_server "''adder''" "[]"]
  by (simp add: sample_job_def sample_world_def sample_loads_def sample_dumps_def
        dict_get_def sample_server_eq)


text \<open>Claim C2 as stated fails for absent params: \<^verbatim>\<open>len(None)\<close> raises inside the
  \<^verbatim>\<open>try\<close> block, the registered handler is not called and the Internal-Error
  envelope is published.\<close>

theorem job_absent_params_counterexample:
  "methods sample_server ''add'' = Some ''adder''
   \<and> map_of [(''id'', JInt 7), (''method'', JStr ''add'')] ''params'' = None
   \<and> json_loads sample_world (body (sample_job ''add'' ''{id: 7, method: add}''))
       = Some (JObj [(''id'', JInt 7), (''method'', JStr ''add'')])
   \<and> process_message sample_world sample_server (sample_job ''add'' ''{id: 7, method: add}'') =
     (Inr (),
      sample_server\<lparr> trace := trace sample_server @
        [Put (json_dumps sample_world
                (JObj [(''jsonrpc'', JStr ''2.0''), (''id'', JInt 7),
                       (''error'', JObj [(''code'', JInt (- 32603)),
                                         (''message'', JStr ''Internal error'')])]))
             (Some ''/topic/reply-CALLER'') []] \<rparr>)
   \<and> Invoke ''adder'' (KwArgs [])
       \<notin> set (trace (snd (process_message sample_world sample_server
                             (sample_job ''add'' ''{id: 7, method: add}''))))"
  by (simp add: sample_server_eq sample_job_def sample_world_def sample_loads_def
        sample_dumps_def process_message_def JSONRPCObject_def dict_get_def startswith_def
        is_job_def process_job_def decode_params_def job_except_def put_def
        error_response_def Let_def)

subsection \<open>Dispatch of notifications\<close>

lemma process_notification_no_put:
  "filter is_Put (new_events s (snd (process_notification W s r))) = []"
  by (simp add: process_notification_def call_handler_def new_events_def
           split: sum.splits option.splits prod.splits)


text \<open>
  Claim C8, as the code has it. Dispatching a notification (an envelope without
  \<open>id\<close>) never publishes anything. When a handler is registered under the
  notification name and the params are a dict, the handler is called once with the
  entries of the params as keyword arguments, nothing else happens, and the outcome of
  \<^verbatim>\<open>_process_message\<close> is the handler's: an exception it raises leaves
  \<^verbatim>\<open>_process_message\<close> and then ends \<^verbatim>\<open>run\<close>, whatever messages were still to
  come.
\<close>

theorem notification_dispatch:
  assumes "body m \<noteq> MSG_QUIT"
      and "json_loads W (body m) = Some (JObj d)"
      and "dict_get d JSONRPC_KEY_ID = JNull"
      and "headers m ''destination'' = Some dest"
  shows "filter is_Put (new_events s (snd (process_message W s m))) = []
       \<and> (notifiers s (partition_last dest PREFIX_TOPIC_MESSAGE) = Some h
            \<and> dict_get d JSONRPC_KEY_PARAMS = JObj kw \<longrightarrow>
          process_message W s m =
            (case invoke W h (KwArgs kw) of Inl e \<Rightarrow> Inl e | Inr v \<Rightarrow> Inr (),
             s\<lparr> trace := trace s @ [Invoke h (KwArgs kw)] \<rparr>)
          \<and> (\<forall>e. invoke W h (KwArgs kw) = Inl e \<longrightarrow>
                run W s (Recv m # rest) =
                  Crashed e (s\<lparr> listen := Some True,
                                 trace := trace s @ [Invoke h (KwArgs kw)] \<rparr>)))"
proof -
  let ?r = "\<lparr> params = dict_get d JSONRPC_KEY_PARAMS, rpc_method = dict_get d JSONRPC_KEY_METHOD,
               rpc_id = JNull, result = dict_get d JSONRPC_KEY_RESULT,
               error = dict_get d JSONRPC_KEY_ERROR, message_type = Some MSG_TYPE_NOT,
               notification = Some (partition_last dest PREFIX_TOPIC_MESSAGE),
               reply_to = None \<rparr>"
  have pm: "process_message W s' m = process_notification W s' ?r" for s' :: "'a session"
    using process_message_notification[OF assms(1)
            rpco_of_notification[of "json_loads W" m d dest, OF assms(2,3,4)]]
    by simp
  have noput: "filter is_Put (new_events s (snd (process_message W s m))) = []"
    unfolding pm by (rule process_notification_no_put)
  have disp: "process_notification W s' ?r =
            (case invoke W h (KwArgs kw) of Inl e \<Rightarrow> Inl e | Inr v \<Rightarrow> Inr (),
             s'\<lparr> trace := trace s' @ [Invoke h (KwArgs kw)] \<rparr>)"
    if "notifiers s' (partition_last dest PREFIX_TOPIC_MESSAGE) = Some h"
       "dict_get d JSONRPC_KEY_PARAMS = JObj kw" for s' :: "'a session"
    using that
    by (simp add: process_notification_def call_handler_def split: sum.splits)
  have crash: "run W s (Recv m # rest) =
                  Crashed e (s\<lparr> listen := Some True,
                                 trace := trace s @ [Invoke h (KwArgs kw)] \<rparr>)"
    if "notifiers s (partition_last dest PREFIX_TOPIC_MESSAGE) = Some h"
       "dict_get d JSONRPC_KEY_PARAMS = JObj kw" "invoke W h (KwArgs kw) = Inl e" for e
    using that disp[of "s\<lparr> listen := Some True \<rparr>"]
    by (simp add: run_def pm)
  from noput disp[of s] crash show ?thesis unfolding pm by blast
qed


theorem notification_dispatch_witness:
  "process_message sample_world sample_server
     (sample_message ''/topic/msg.local.ping'' ''{method: ping, params: {level: 3}}'') =
     (Inr (),
      sample_server\<lparr> trace := trace sample_server
                        @ [Invoke ''pinger'' (KwArgs [(''level'', JInt 3)])] \<rparr>)
   \<and> process_message sample_world sample_server
     (sample_message ''/topic/msg.local.ping'' ''{method: ping, params: {}}'') =
     (Inr (), sample_server\<lparr> trace := trace sample_server @ [Invoke ''pinger'' (KwArgs [])] \<rparr>)
   \<and> run sample_world sample_server
       [Recv (sample_message ''/topic/msg.local.alarm'' ''{method: ping, params: {level: 3}}''),
        Recv (sample_message ''/topic/msg.local.ping'' ''{method: ping, params: {}}'')] =
     Crashed (OtherException ''boom'')
       (sample_server\<lparr> listen := Some True,
                       trace := trace sample_server
                         @ [Invoke ''boom'' (KwArgs [(''level'', JInt 3)])] \<rparr>)"
  using notification_dispatch[of
          "sample_message ''/topic/msg.local.ping'' ''{method: ping, params: {level: 3}}''"
          sample_world
          "[(''method'', JStr ''ping''), (''params'', JObj [(''level'', JInt 3)])]"
          "''/topic/msg.local.ping''" sample_server "''pinger''" "[(''level'', JInt 3)]"]
        notification_dispatch[of
          "sample_message ''/topic/msg.local.ping'' ''{method: ping, params: {}}''"
          sample_world "[(''method'', JStr ''ping''), (''params'', JObj [])]"
          "''/topic/msg.local.ping''" sample_server "''pinger''" "[]"]
        notification_dispatch[of
          "sample_message ''/topic/msg.local.alarm'' ''{method: ping, params: {level: 3}}''"
          sample_world
          "[(''method'', JStr ''ping''), (''params'', JObj [(''level'', JInt 3)])]"
          "''/topic/msg.local.alarm''" sample_server "''boom''" "[(''level'', JInt 3)]"
          "[Recv (sample_message ''/topic/msg.local.ping'' ''{method: ping, params: {}}'')]"]
  by (simp add: sample_message_def sample_world_def sample_loads_def dict_get_def
        sample_server_eq partition_last_def partition_str_def)

text \<open>Claim C8 as stated fails for a notification without params: the handler
  \<open>pinger\<close> is registered under the name \<open>ping\<close>, but unpacking \<^verbatim>\<open>**None\<close> raises
  \<^verbatim>\<open>TypeError\<close> before the handler is entered, so the handler is not called and the
  exception that leaves \<^verbatim>\<open>_process_message\<close> is not one of the handler's.\<close>

theorem notification_absent_params_counterexample:
  "notifiers sample_server ''ping'' = Some ''pinger''
   \<and> json_loads sample_world (body (sample_message ''/topic/msg.local.ping'' ''{method: ping}''))
       = Some (JObj [(''method'', JStr ''ping'')])
   \<and> process_message sample_world sample_server
         (sample_message ''/topic/msg.local.ping'' ''{method: ping}'')
       = (Inl TypeError, sample_server)
   \<and> Invoke ''pinger'' (KwArgs [])
       \<notin> set (trace (snd (process_message sample_world sample_server
                             (sample_message ''/topic/msg.local.ping'' ''{method: ping}''))))"
  by (simp add: sample_server_eq sample_message_def sample_world_def sample_loads_def
        process_message_def JSONRPCObject_def dict_get_def is_job_def is_notification_def
        process_notification_def partition_last_def partition_str_def Let_def)

subsection \<open>A call and its reply\<close>




end
